theory Spec2Isabelle
  imports Main "HOL-Library.Char_ord" "HOL-Library.List_Lexorder" "HOL-Library.Sublist"
begin

section \<open>Source file discovery of cpp\_core: \<^verbatim>\<open>get_all_source_files.py\<close>\<close>

text \<open>
  The module walks directory trees and collects source files for a desktop (CMake) and an
  Arduino (PlatformIO) build. Its functions are embedded one by one, under their own
  names. What the module reads from its host (the directory tree, the working directory
  and the environment variables) is an explicit argument of the embedding.

  Conventions of the embedding:
  \<^item> a Python \<^verbatim>\<open>str\<close> is a \<open>string\<close>; comparison is the lexicographic order of
    the character codes (\<open>Char_ord\<close>, \<open>List_Lexorder\<close>), which is the order of
    Python's \<^verbatim>\<open>sorted\<close> on strings;
  \<^item> \<^verbatim>\<open>str.lower\<close> is modelled on the ASCII letters;
  \<^item> an \<^verbatim>\<open>Optional[List[str]]\<close> argument is a \<open>string list option\<close>, and
    the test \<^verbatim>\<open>if not xs\<close> is true of \<open>None\<close> and of \<open>Some []\<close>;
  \<^item> a \<^verbatim>\<open>pathlib.Path\<close> of a POSIX host is its anchor (\<open>''''\<close>, \<open>''/''\<close> or
    \<open>''//''\<close>) and its list of components;
  \<^item> the directory tree has directories and regular files, no symbolic links, so that
    \<^verbatim>\<open>Path.resolve\<close> is the lexical normalisation of the absolute path.
\<close>

subsection \<open>Strings\<close>

text \<open>The ASCII capitals and the letters \<^verbatim>\<open>str.lower\<close> maps them to.\<close>

definition upper_letters :: string where
  "upper_letters = ''ABCDEFGHIJKLMNOPQRSTUVWXYZ''"

definition lower_letters :: string where
  "lower_letters = ''abcdefghijklmnopqrstuvwxyz''"

definition is_upper :: "char \<Rightarrow> bool" where
  "is_upper c = (c \<in> set upper_letters)"

definition lower_char :: "char \<Rightarrow> char" where
  "lower_char c =
     (case map_of (zip upper_letters lower_letters) c of None \<Rightarrow> c | Some d \<Rightarrow> d)"

text \<open>\<^verbatim>\<open>s.lower()\<close>\<close>

definition lower :: "string \<Rightarrow> string" where
  "lower s = map lower_char s"

text \<open>\<^verbatim>\<open>s.startswith(p)\<close> and \<^verbatim>\<open>s.endswith(p)\<close>\<close>

definition startswith :: "string \<Rightarrow> string \<Rightarrow> bool" where
  "startswith s p = (take (length p) s = p)"

definition endswith :: "string \<Rightarrow> string \<Rightarrow> bool" where
  "endswith s p = (length p \<le> length s \<and> drop (length s - length p) s = p)"

text \<open>\<^verbatim>\<open>s.lstrip(".")\<close>: all leading dots are removed.\<close>

definition lstrip_dots :: "string \<Rightarrow> string" where
  "lstrip_dots s = dropWhile (\<lambda>c. c = CHR ''.'') s"

text \<open>\<^verbatim>\<open>s.rfind(".")\<close>: the index of the last dot, \<open>-1\<close> when there is none.\<close>

definition rfind_dot :: "string \<Rightarrow> int" where
  "rfind_dot s =
     (if CHR ''.'' \<in> set s
      then int (length s) - 1 - int (length (takeWhile (\<lambda>c. c \<noteq> CHR ''.'') (rev s)))
      else - 1)"

text \<open>\<^verbatim>\<open>s.split("/")\<close>\<close>

fun split_slash :: "string \<Rightarrow> string list" where
  "split_slash [] = [[]]"
| "split_slash (c # cs) =
     (if c = CHR ''/'' then [] # split_slash cs
      else (case split_slash cs of [] \<Rightarrow> [[c]] | w # ws \<Rightarrow> (c # w) # ws))"

subsection \<open>Paths (\<^verbatim>\<open>pathlib.Path\<close> on a POSIX host)\<close>

text \<open>
  A path object is its anchor and its components. \<^verbatim>\<open>Path(s)\<close> takes the anchor from
  the leading slashes of \<open>s\<close> (exactly two leading slashes are kept as \<open>''//''\<close>), splits
  the rest at the slashes and drops the empty components and the components \<open>''.''\<close>;
  components \<open>''..''\<close> are kept.
\<close>

datatype pth = Pth (anchor: string) (comps: "string list")

definition path_anchor :: "string \<Rightarrow> string" where
  "path_anchor s =
     (if startswith s ''//'' \<and> \<not> startswith s ''///'' then ''//''
      else if startswith s ''/'' then ''/'' else [])"

definition Path :: "string \<Rightarrow> pth" where
  "Path s = Pth (path_anchor s) (filter (\<lambda>c. c \<noteq> [] \<and> c \<noteq> ''.'') (split_slash s))"

text \<open>\<^verbatim>\<open>os.path.isabs(s)\<close>\<close>

definition isabs :: "string \<Rightarrow> bool" where
  "isabs s = startswith s ''/''"

text \<open>\<^verbatim>\<open>p.parts\<close>: the anchor, when there is one, then the components.\<close>

definition parts :: "pth \<Rightarrow> string list" where
  "parts p = (if anchor p = [] then comps p else anchor p # comps p)"

text \<open>\<^verbatim>\<open>"/".join(xs)\<close>\<close>

fun join_slash :: "string list \<Rightarrow> string" where
  "join_slash [] = []"
| "join_slash [x] = x"
| "join_slash (x # y # ys) = x @ ''/'' @ join_slash (y # ys)"

text \<open>\<^verbatim>\<open>str(p)\<close>\<close>

definition pth_str :: "pth \<Rightarrow> string" where
  "pth_str p =
     (if anchor p = [] \<and> comps p = [] then ''.'' else anchor p @ join_slash (comps p))"

text \<open>\<^verbatim>\<open>p.name\<close> and \<^verbatim>\<open>p.suffix\<close>: the suffix of a name starts at its last dot,
  unless that dot is the first or the last character of the name.\<close>

definition pth_name :: "pth \<Rightarrow> string" where
  "pth_name p = (if comps p = [] then [] else last (comps p))"

definition name_suffix :: "string \<Rightarrow> string" where
  "name_suffix name =
     (let i = rfind_dot name
      in if 0 < i \<and> i < int (length name) - 1 then drop (nat i) name else [])"

definition pth_suffix :: "pth \<Rightarrow> string" where
  "pth_suffix p = name_suffix (pth_name p)"

text \<open>\<^verbatim>\<open>p / s\<close> for a string \<open>s\<close>: an absolute \<open>s\<close> replaces \<open>p\<close>.\<close>

definition pth_join :: "pth \<Rightarrow> string \<Rightarrow> pth" where
  "pth_join p s =
     (let q = Path s in if anchor q \<noteq> [] then q else Pth (anchor p) (comps p @ comps q))"

text \<open>\<^verbatim>\<open>p / name\<close> for the name of a directory entry, which is one component.\<close>

definition pth_child :: "pth \<Rightarrow> string \<Rightarrow> pth" where
  "pth_child p name = Pth (anchor p) (comps p @ [name])"

text \<open>\<^verbatim>\<open>p.is_relative_to(q)\<close>\<close>

definition is_relative_to :: "pth \<Rightarrow> pth \<Rightarrow> bool" where
  "is_relative_to p q = prefix (parts q) (parts p)"

subsection \<open>The host: directory tree, working directory, environment\<close>

text \<open>
  A directory lists its entries in the order in which the host enumerates them
  (\<^verbatim>\<open>os.scandir\<close>, \<^verbatim>\<open>Path.iterdir\<close>). The working directory is the list of its
  components below the root.
\<close>

datatype node = File | Dir "(string \<times> node) list"

record host =
  tree :: node
  cwd :: "string list"
  environ :: "string \<Rightarrow> string option"

fun is_Dir :: "node \<Rightarrow> bool" where
  "is_Dir (Dir es) = True"
| "is_Dir File = False"

fun entries :: "node \<Rightarrow> (string \<times> node) list" where
  "entries (Dir es) = es"
| "entries File = []"

text \<open>The node at a list of components without \<open>''..''\<close>, from a given node.\<close>

fun lookup :: "node \<Rightarrow> string list \<Rightarrow> node option" where
  "lookup n [] = Some n"
| "lookup File (c # cs) = None"
| "lookup (Dir es) (c # cs) =
     (case map_of es c of None \<Rightarrow> None | Some n \<Rightarrow> lookup n cs)"

text \<open>
  How the host follows the components of a path from the directory \<open>cur\<close>: every
  component is looked up in a directory that exists, and \<open>''..''\<close> leads to the parent
  (the parent of the root is the root). The result is the place reached.
\<close>

fun traverse :: "node \<Rightarrow> string list \<Rightarrow> string list \<Rightarrow> string list option" where
  "traverse t cur [] = Some cur"
| "traverse t cur (c # cs) =
     (case lookup t cur of
        Some (Dir es) \<Rightarrow> traverse t (if c = ''..'' then butlast cur else cur @ [c]) cs
      | _ \<Rightarrow> None)"

text \<open>The components of a path from the root: a relative path starts at the working
  directory.\<close>

definition abs_comps :: "host \<Rightarrow> pth \<Rightarrow> string list" where
  "abs_comps h p = (if anchor p = [] then cwd h @ comps p else comps p)"

text \<open>The node a path leads to, if any (\<^verbatim>\<open>os.stat\<close>).\<close>

definition stat :: "host \<Rightarrow> pth \<Rightarrow> node option" where
  "stat h p =
     (case traverse (tree h) [] (abs_comps h p) of
        None \<Rightarrow> None
      | Some q \<Rightarrow> lookup (tree h) q)"

text \<open>\<^verbatim>\<open>p.exists()\<close> and \<^verbatim>\<open>p.is_dir()\<close>\<close>

definition pth_exists :: "host \<Rightarrow> pth \<Rightarrow> bool" where
  "pth_exists h p = (stat h p \<noteq> None)"

definition pth_is_dir :: "host \<Rightarrow> pth \<Rightarrow> bool" where
  "pth_is_dir h p = (case stat h p of Some (Dir es) \<Rightarrow> True | _ \<Rightarrow> False)"

text \<open>
  \<^verbatim>\<open>p.resolve()\<close>: the path is made absolute and \<open>''..''\<close> removes the component
  before it (at the root it is dropped). The path need not exist.
\<close>

definition norm_comps :: "string list \<Rightarrow> string list" where
  "norm_comps cs = foldl (\<lambda>acc c. if c = ''..'' then butlast acc else acc @ [c]) [] cs"

definition resolve :: "host \<Rightarrow> pth \<Rightarrow> pth" where
  "resolve h p = Pth ''/'' (norm_comps (abs_comps h p))"

text \<open>\<^verbatim>\<open>os.environ.get(k)\<close> as a truth value: the variable is set and not empty.\<close>

definition env_truthy :: "host \<Rightarrow> string \<Rightarrow> bool" where
  "env_truthy h k = (case environ h k of None \<Rightarrow> False | Some v \<Rightarrow> v \<noteq> [])"

subsection \<open>Module constants\<close>

definition DEFAULT_EXCLUDE_DIRS :: "string set" where
  "DEFAULT_EXCLUDE_DIRS = {''.pio'', ''.git'', ''build'', ''.vscode'', ''.idea''}"

definition DEFAULT_SOURCE_EXTENSIONS :: "string list" where
  "DEFAULT_SOURCE_EXTENSIONS = [''.h'', ''.hpp'', ''.cpp'', ''.cc'', ''.cxx'']"

subsection \<open>\<^verbatim>\<open>_normalize_extensions\<close>\<close>

text \<open>The body of the loop: lower the entry, put a dot in front when it has none.\<close>

definition normalize_extension :: "string \<Rightarrow> string" where
  "normalize_extension e =
     (let e' = lower e in if \<not> startswith e' ''.'' then ''.'' @ e' else e')"

definition normalize_extensions :: "string list option \<Rightarrow> string set" where
  "normalize_extensions extensions =
     (case extensions of
        None \<Rightarrow> set (map lower DEFAULT_SOURCE_EXTENSIONS)
      | Some [] \<Rightarrow> set (map lower DEFAULT_SOURCE_EXTENSIONS)
      | Some es \<Rightarrow> set (map normalize_extension es))"

text \<open>The entries of an optional list argument; \<^verbatim>\<open>if xs:\<close> is \<open>given xs \<noteq> []\<close>.\<close>

definition given :: "'a list option \<Rightarrow> 'a list" where
  "given xs = (case xs of None \<Rightarrow> [] | Some ys \<Rightarrow> ys)"

subsection \<open>\<^verbatim>\<open>_path_has_excluded_part\<close> and \<^verbatim>\<open>_path_under_any\<close>\<close>

definition path_has_excluded_part :: "pth \<Rightarrow> string set \<Rightarrow> bool" where
  "path_has_excluded_part path exclude_dirs = (\<exists>part\<in>set (parts path). part \<in> exclude_dirs)"

definition path_under_any :: "host \<Rightarrow> pth \<Rightarrow> pth set \<Rightarrow> bool" where
  "path_under_any h path exclude_paths =
     (let resolved = resolve h path in \<exists>ex\<in>exclude_paths. is_relative_to resolved ex)"

subsection \<open>\<^verbatim>\<open>_walk_for_files\<close>\<close>

text \<open>
  The loop over \<^verbatim>\<open>os.walk(start)\<close>, top down. At the directory \<open>root\<close> the body either
  clears \<^verbatim>\<open>dirs\<close> and continues (nothing is collected, nothing below is visited), or
  collects the files of the directory whose lowered suffix is allowed and leaves in
  \<^verbatim>\<open>dirs\<close> the directories whose name is not excluded, which the walk visits next, in
  order. The files are the entries that are not directories.
\<close>

function walk_dir ::
  "host \<Rightarrow> string set \<Rightarrow> string set \<Rightarrow> pth set \<Rightarrow> pth \<Rightarrow> node \<Rightarrow> string list" where
  "walk_dir h file_extensions exclude_dirs combined_exclude_paths root File = []"
| "walk_dir h file_extensions exclude_dirs combined_exclude_paths root (Dir es) =
     (if path_has_excluded_part root exclude_dirs then []
      else if combined_exclude_paths \<noteq> {} \<and> path_under_any h root combined_exclude_paths
      then []
      else
        map (\<lambda>e. pth_str (resolve h (pth_child root (fst e))))
          (filter (\<lambda>e. \<not> is_Dir (snd e) \<and>
                     lower (pth_suffix (pth_child root (fst e))) \<in> file_extensions) es)
        @ concat
            (map (\<lambda>e. walk_dir h file_extensions exclude_dirs combined_exclude_paths
                        (pth_child root (fst e)) (snd e))
               (filter (\<lambda>e. is_Dir (snd e) \<and> fst e \<notin> exclude_dirs) es)))"
  by pat_completeness auto
termination
proof (relation "measure (\<lambda>(h, fe, ed, cep, root, n). size n)")
  show "wf (measure (\<lambda>(h, fe, ed, cep, root, n). size n))"
    by simp
next
  fix h :: host and file_extensions exclude_dirs :: "string set"
    and combined_exclude_paths :: "pth set" and root :: pth
    and es :: "(string \<times> node) list" and e :: "string \<times> node"
  assume "e \<in> set (filter (\<lambda>e. is_Dir (snd e) \<and> fst e \<notin> exclude_dirs) es)"
  then have "e \<in> set es"
    by simp
  then have "size (snd e) < size (Dir es)"
    by (induction es) (auto simp: less_Suc_eq_le)
  then show "((h, file_extensions, exclude_dirs, combined_exclude_paths,
                pth_child root (fst e), snd e),
               (h, file_extensions, exclude_dirs, combined_exclude_paths, root, Dir es))
             \<in> measure (\<lambda>(h, fe, ed, cep, root, n). size n)"
    by simp
qed

text \<open>\<^verbatim>\<open>os.walk(start)\<close> yields nothing when \<open>start\<close> cannot be listed.\<close>

definition walk_start :: "host \<Rightarrow> string set \<Rightarrow> string set \<Rightarrow> pth set \<Rightarrow> pth \<Rightarrow> string list" where
  "walk_start h file_extensions exclude_dirs combined_exclude_paths start =
     (case stat h start of
        None \<Rightarrow> []
      | Some n \<Rightarrow> walk_dir h file_extensions exclude_dirs combined_exclude_paths start n)"

text \<open>
  The list \<^verbatim>\<open>roots_to_walk\<close>, for the resolved \<open>root_path\<close>. The loop over
  \<^verbatim>\<open>include_folders\<close> keeps, in order, the folders that exist and are directories;
  when it keeps none, the root itself is walked.
\<close>

definition include_subs :: "host \<Rightarrow> pth \<Rightarrow> string list option \<Rightarrow> pth list" where
  "include_subs h root_path include_folders =
     filter (\<lambda>sub. pth_exists h sub \<and> pth_is_dir h sub)
       (map (\<lambda>folder. if \<not> isabs folder then pth_join root_path folder else Path folder)
          (given include_folders))"

definition roots_to_walk :: "host \<Rightarrow> pth \<Rightarrow> string list option \<Rightarrow> pth list" where
  "roots_to_walk h root_path include_folders =
     (if given include_folders \<noteq> [] then
        (let subs = include_subs h root_path include_folders
         in if subs = [] then [root_path] else subs)
      else [root_path])"

definition walk_for_files ::
  "host \<Rightarrow> pth \<Rightarrow> string set \<Rightarrow> string list option \<Rightarrow> string set \<Rightarrow> pth set option
     \<Rightarrow> string list" where
  "walk_for_files h root_path file_extensions include_folders exclude_dirs exclude_paths =
     (let root_path = resolve h root_path in
      if \<not> pth_exists h root_path \<or> \<not> pth_is_dir h root_path then []
      else
        (let combined_exclude_paths =
               (case exclude_paths of None \<Rightarrow> {} | Some ps \<Rightarrow> resolve h ` ps);
             result =
               concat (map (walk_start h file_extensions exclude_dirs combined_exclude_paths)
                 (roots_to_walk h root_path include_folders))
         in sort result))"

subsection \<open>\<^verbatim>\<open>_discover_libraries_desktop\<close> and \<^verbatim>\<open>_discover_libraries_arduino\<close>\<close>

text \<open>\<^verbatim>\<open>p.iterdir()\<close> of a directory that exists.\<close>

definition iterdir :: "host \<Rightarrow> pth \<Rightarrow> (string \<times> node) list" where
  "iterdir h p = (case stat h p of None \<Rightarrow> [] | Some n \<Rightarrow> entries n)"

text \<open>
  The state of either loop is the pair of \<^verbatim>\<open>libraries\<close> and \<^verbatim>\<open>seen\<close>. Both loops add
  a library root the same way: resolved, and only when its string is not in \<^verbatim>\<open>seen\<close>.
\<close>

definition add_library :: "host \<Rightarrow> pth \<Rightarrow> pth list \<times> string set \<Rightarrow> pth list \<times> string set" where
  "add_library h lib_dir st =
     (let lib_root = resolve h lib_dir
      in if pth_str lib_root \<notin> snd st
         then (fst st @ [lib_root], insert (pth_str lib_root) (snd st))
         else st)"

definition desktop_step ::
  "host \<Rightarrow> pth \<Rightarrow> pth list \<times> string set \<Rightarrow> string \<times> node \<Rightarrow> pth list \<times> string set" where
  "desktop_step h build_deps st e =
     (let lib_dir = pth_child build_deps (fst e); name = fst e in
      if \<not> is_Dir (snd e) \<or> startswith name ''.'' then st
      else if endswith name ''-src'' then add_library h lib_dir st
      else if pth_exists h (pth_join lib_dir ''include'')
              \<and> pth_is_dir h (pth_join lib_dir ''include'') then add_library h lib_dir st
      else if pth_exists h (pth_join lib_dir ''src'')
              \<and> pth_is_dir h (pth_join lib_dir ''src'') then add_library h lib_dir st
      else st)"

definition discover_libraries_desktop :: "host \<Rightarrow> string \<Rightarrow> pth list" where
  "discover_libraries_desktop h project_dir =
     (let project_path = resolve h (Path project_dir);
          build_deps = pth_join (pth_join project_path ''build'') ''_deps''
      in if \<not> pth_exists h build_deps \<or> \<not> pth_is_dir h build_deps then []
         else fst (foldl (desktop_step h build_deps) ([], {}) (iterdir h build_deps)))"

definition arduino_lib_step ::
  "host \<Rightarrow> pth \<Rightarrow> pth list \<times> string set \<Rightarrow> string \<times> node \<Rightarrow> pth list \<times> string set" where
  "arduino_lib_step h env_dir st e =
     (if \<not> is_Dir (snd e) then st else add_library h (pth_child env_dir (fst e)) st)"

definition arduino_env_step ::
  "host \<Rightarrow> pth \<Rightarrow> pth list \<times> string set \<Rightarrow> string \<times> node \<Rightarrow> pth list \<times> string set" where
  "arduino_env_step h pio_libdeps st e =
     (let env_dir = pth_child pio_libdeps (fst e) in
      if \<not> is_Dir (snd e) then st
      else foldl (arduino_lib_step h env_dir) st (entries (snd e)))"

definition discover_libraries_arduino :: "host \<Rightarrow> string \<Rightarrow> pth list" where
  "discover_libraries_arduino h project_dir =
     (let project_path = resolve h (Path project_dir);
          pio_libdeps = pth_join (pth_join project_path ''.pio'') ''libdeps''
      in if \<not> pth_exists h pio_libdeps \<or> \<not> pth_is_dir h pio_libdeps then []
         else fst (foldl (arduino_env_step h pio_libdeps) ([], {}) (iterdir h pio_libdeps)))"

subsection \<open>\<^verbatim>\<open>get_all_files_desktop\<close> and \<^verbatim>\<open>get_all_files_arduino\<close>\<close>

text \<open>
  Both functions build \<^verbatim>\<open>exclude_dir_set\<close> and \<^verbatim>\<open>exclude_paths\<close> with the same
  expressions (the Arduino one writes the second update as a loop): a name of
  \<^verbatim>\<open>exclude_dirs\<close> that starts with a dot is added without its leading dots, and of a
  folder of \<^verbatim>\<open>exclude_folders\<close> the first part is added, or the folder string itself
  when its path has no parts.
\<close>

definition exclude_dir_name :: "string \<Rightarrow> string" where
  "exclude_dir_name d = (if startswith d ''.'' then lstrip_dots d else d)"

definition exclude_folder_part :: "string \<Rightarrow> string" where
  "exclude_folder_part f = (if parts (Path f) \<noteq> [] then hd (parts (Path f)) else f)"

definition exclude_dir_set :: "string list option \<Rightarrow> string list option \<Rightarrow> string set" where
  "exclude_dir_set exclude_dirs exclude_folders =
     DEFAULT_EXCLUDE_DIRS
     \<union> set (map exclude_dir_name (given exclude_dirs))
     \<union> set (map exclude_folder_part (given exclude_folders))"

definition exclude_path_set :: "host \<Rightarrow> pth \<Rightarrow> string list option \<Rightarrow> pth set" where
  "exclude_path_set h project_path exclude_folders =
     set (map (\<lambda>f. if isabs f then resolve h (Path f) else resolve h (pth_join project_path f))
            (given exclude_folders))"

text \<open>The list \<^verbatim>\<open>project_files\<close> of both functions: the walk of the project root, with
  the exclude paths when there are any.\<close>

definition project_files ::
  "host \<Rightarrow> string \<Rightarrow> string list option \<Rightarrow> string list option \<Rightarrow> string list option
     \<Rightarrow> string list option \<Rightarrow> string list" where
  "project_files h project_dir file_extensions include_folders exclude_folders exclude_dirs =
     (let project_path = resolve h (Path project_dir);
          exclude_paths = exclude_path_set h project_path exclude_folders
      in walk_for_files h project_path (normalize_extensions file_extensions) include_folders
           (exclude_dir_set exclude_dirs exclude_folders)
           (if exclude_paths \<noteq> {} then Some exclude_paths else None))"


text \<open>The set \<^verbatim>\<open>all_paths\<close> at the end of either function.\<close>

definition all_paths ::
  "host \<Rightarrow> pth list \<Rightarrow> string \<Rightarrow> string list option \<Rightarrow> string list option
     \<Rightarrow> string list option \<Rightarrow> string list option \<Rightarrow> bool \<Rightarrow> string set" where
  "all_paths h libraries project_dir file_extensions include_folders exclude_folders
       exclude_dirs include_libraries =
     set (project_files h project_dir file_extensions include_folders exclude_folders
            exclude_dirs)
     \<union> (if include_libraries
        then \<Union>lib_root\<in>set libraries.
               set (walk_for_files h lib_root (normalize_extensions file_extensions)
                      include_folders (exclude_dir_set exclude_dirs exclude_folders) None)
        else {})"

definition get_all_files_desktop ::
  "host \<Rightarrow> string \<Rightarrow> string list option \<Rightarrow> string list option \<Rightarrow> string list option
     \<Rightarrow> string list option \<Rightarrow> bool \<Rightarrow> string list" where
  "get_all_files_desktop h project_dir file_extensions include_folders exclude_folders
       exclude_dirs include_libraries =
     (let project_path = resolve h (Path project_dir);
          ext_set = normalize_extensions file_extensions;
          exclude_dir_set = exclude_dir_set exclude_dirs exclude_folders;
          exclude_paths = exclude_path_set h project_path exclude_folders;
          project_files =
            walk_for_files h project_path ext_set include_folders exclude_dir_set
              (if exclude_paths \<noteq> {} then Some exclude_paths else None);
          all_paths = set project_files;
          all_paths =
            (if include_libraries
             then foldl (\<lambda>acc lib_root. acc \<union>
                      set (walk_for_files h lib_root ext_set include_folders exclude_dir_set None))
                    all_paths (discover_libraries_desktop h project_dir)
             else all_paths)
      in sorted_list_of_set all_paths)"

definition get_all_files_arduino ::
  "host \<Rightarrow> string \<Rightarrow> string list option \<Rightarrow> string list option \<Rightarrow> string list option
     \<Rightarrow> string list option \<Rightarrow> bool \<Rightarrow> string list" where
  "get_all_files_arduino h project_dir file_extensions include_folders exclude_folders
       exclude_dirs include_libraries =
     (let project_path = resolve h (Path project_dir);
          ext_set = normalize_extensions file_extensions;
          exclude_dir_set = exclude_dir_set exclude_dirs exclude_folders;
          exclude_paths = exclude_path_set h project_path exclude_folders;
          project_files =
            walk_for_files h project_path ext_set include_folders exclude_dir_set
              (if exclude_paths \<noteq> {} then Some exclude_paths else None);
          all_paths = set project_files;
          all_paths =
            (if include_libraries
             then foldl (\<lambda>acc lib_root. acc \<union>
                      set (walk_for_files h lib_root ext_set include_folders exclude_dir_set None))
                    all_paths (discover_libraries_arduino h project_dir)
             else all_paths)
      in sorted_list_of_set all_paths)"

subsection \<open>\<^verbatim>\<open>_is_cmake_build\<close> and \<^verbatim>\<open>get_all_files_std\<close>\<close>

definition is_cmake_build :: "host \<Rightarrow> string option \<Rightarrow> bool" where
  "is_cmake_build h project_dir =
     (if env_truthy h ''CMAKE_PROJECT_DIR'' then True
      else if env_truthy h ''PROJECT_DIR'' then False
      else if project_dir \<noteq> None \<and> project_dir \<noteq> Some [] then
        (let proj = resolve h (Path (the project_dir)) in
         if pth_exists h (pth_join (pth_join proj ''build'') ''_deps'') then True
         else if pth_exists h (pth_join (pth_join proj ''.pio'') ''libdeps'') then False
         else True)
      else True)"

text \<open>\<^verbatim>\<open>os.getcwd()\<close>\<close>

definition getcwd :: "host \<Rightarrow> string" where
  "getcwd h = pth_str (Pth ''/'' (cwd h))"

text \<open>The project directory \<^verbatim>\<open>get_all_files_std\<close> works on: its argument, else the
  first of the two environment variables that is set and not empty, else the working
  directory.\<close>

definition std_project_dir :: "host \<Rightarrow> string option \<Rightarrow> string" where
  "std_project_dir h project_dir =
     (let d = (if project_dir \<noteq> None \<and> project_dir \<noteq> Some [] then the project_dir
               else if env_truthy h ''CMAKE_PROJECT_DIR'' then the (environ h ''CMAKE_PROJECT_DIR'')
               else if env_truthy h ''PROJECT_DIR'' then the (environ h ''PROJECT_DIR'')
               else [])
      in if d = [] then getcwd h else d)"

definition get_all_files_std ::
  "host \<Rightarrow> string option \<Rightarrow> string list option \<Rightarrow> string list option \<Rightarrow> string list option
     \<Rightarrow> string list option \<Rightarrow> bool \<Rightarrow> string list" where
  "get_all_files_std h project_dir file_extensions include_folders exclude_folders
       exclude_dirs include_libraries =
     (let project_dir = std_project_dir h project_dir in
      if is_cmake_build h (Some project_dir)
      then get_all_files_desktop h project_dir file_extensions include_folders exclude_folders
             exclude_dirs include_libraries
      else get_all_files_arduino h project_dir file_extensions include_folders exclude_folders
             exclude_dirs include_libraries)"

subsection \<open>Well-formed hosts\<close>






subsection \<open>A host for concrete runs\<close>

text \<open>
  The project \<^verbatim>\<open>/proj\<close> of the scenarios: sources under \<^verbatim>\<open>src\<close> and \<^verbatim>\<open>include\<close>,
  a CMake build tree with the fetched library \<^verbatim>\<open>zlib-src\<close>, a PlatformIO tree with the
  library \<^verbatim>\<open>Wire\<close> of the environment \<^verbatim>\<open>uno\<close>, a \<^verbatim>\<open>build\<close> directory nested
  under \<^verbatim>\<open>src/sub\<close>, and a directory \<^verbatim>\<open>/opt/inc\<close> outside the project. The working
  directory is the project; no environment variable is set.
\<close>

definition project_tree :: node where
  "project_tree =
     Dir [(''proj'', Dir
            [(''src'', Dir [(''main.cpp'', File),
                            (''sub'', Dir [(''keep.h'', File),
                                           (''build'', Dir [(''gen.h'', File)])])]),
             (''include'', Dir [(''foo.h'', File), (''Bar.HPP'', File), (''notes.txt'', File)]),
             (''build'', Dir [(''obj'', Dir [(''main.o'', File)]),
                              (''_deps'', Dir [(''zlib-src'', Dir
                                 [(''include'', Dir [(''zlib.h'', File)])])])]),
             (''.git'', Dir [(''config'', File)]),
             (''.cache'', Dir [(''tmp.h'', File)]),
             (''.pio'', Dir [(''libdeps'', Dir [(''uno'', Dir [(''Wire'', Dir
                                 [(''src'', Dir [(''Wire.h'', File)])])])])])]),
          (''opt'', Dir [(''inc'', Dir [(''a.h'', File)])])]"

definition project_host :: host where
  "project_host = \<lparr>tree = project_tree, cwd = [''proj''], environ = (\<lambda>k. None)\<rparr>"

text \<open>
  Variants of the host: both environment variables set; only \<^verbatim>\<open>PROJECT_DIR\<close> set; and
  a project that has a PlatformIO tree and no CMake build tree.
\<close>

definition both_signals_host :: host where
  "both_signals_host =
     project_host\<lparr>environ :=
       [''CMAKE_PROJECT_DIR'' \<mapsto> ''/proj'', ''PROJECT_DIR'' \<mapsto> ''/proj'']\<rparr>"

definition embedded_signal_host :: host where
  "embedded_signal_host = project_host\<lparr>environ := [''PROJECT_DIR'' \<mapsto> ''/proj'']\<rparr>"

definition pio_tree :: node where
  "pio_tree =
     Dir [(''proj'', Dir
            [(''src'', Dir [(''main.cpp'', File)]),
             (''.pio'', Dir [(''libdeps'', Dir [(''uno'', Dir [(''Wire'', Dir
                                 [(''src'', Dir [(''Wire.h'', File)])])])])])])]"

definition pio_host :: host where
  "pio_host = \<lparr>tree = pio_tree, cwd = [''proj''], environ = (\<lambda>k. None)\<rparr>"

definition bare_host :: host where
  "bare_host =
     \<lparr>tree = Dir [(''proj'', Dir [(''src'', Dir [(''main.cpp'', File)])])],
      cwd = [''proj''], environ = (\<lambda>k. None)\<rparr>"

section \<open>Properties\<close>

subsection \<open>Strings and extensions\<close>

lemma length_letters: "length upper_letters = length lower_letters"
  by (simp add: upper_letters_def lower_letters_def)

lemma not_upper_lower_char: "\<not> is_upper (lower_char c)"
proof (cases "map_of (zip upper_letters lower_letters) c")
  case None
  then have "c \<notin> set upper_letters"
    using map_of_zip_is_None [OF length_letters] by simp
  with None show ?thesis
    by (simp add: is_upper_def lower_char_def)
next
  case (Some d)
  then have "d \<in> set lower_letters"
    by (meson map_of_SomeD set_zip_rightD)
  then have "d \<notin> set upper_letters"
    by (auto simp: upper_letters_def lower_letters_def)
  with Some show ?thesis
    by (simp add: is_upper_def lower_char_def)
qed

lemma lower_char_fix: "\<not> is_upper c \<Longrightarrow> lower_char c = c"
proof -
  assume "\<not> is_upper c"
  then have "map_of (zip upper_letters lower_letters) c = None"
    using map_of_zip_is_None [OF length_letters] by (simp add: is_upper_def)
  then show ?thesis
    by (simp add: lower_char_def)
qed

lemma lower_idem: "lower (lower s) = lower s"
  by (simp add: lower_def lower_char_fix not_upper_lower_char)

lemma lower_no_upper: "c \<in> set (lower s) \<Longrightarrow> \<not> is_upper c"
  by (auto simp: lower_def not_upper_lower_char)

lemma lower_append: "lower (a @ b) = lower a @ lower b"
  by (simp add: lower_def)

lemma lower_dot: "lower ''.'' = ''.''"
  by (simp add: lower_def lower_char_def upper_letters_def lower_letters_def)

lemma normalize_extension_dot: "startswith (normalize_extension e) ''.''"
  by (simp add: normalize_extension_def Let_def startswith_def)

lemma normalize_extension_lower:
  "c \<in> set (normalize_extension e) \<Longrightarrow> \<not> is_upper c"
  by (auto simp: normalize_extension_def Let_def is_upper_def upper_letters_def
      dest: lower_no_upper split: if_splits)

lemma normalize_extension_fix: "lower (normalize_extension e) = normalize_extension e"
proof -
  have "lower (''.'' @ lower e) = ''.'' @ lower e"
    by (simp only: lower_append lower_dot lower_idem)
  then show ?thesis
    by (simp add: normalize_extension_def Let_def lower_idem)
qed

lemma default_extensions_lower:
  "set (map lower DEFAULT_SOURCE_EXTENSIONS) = {''.h'', ''.hpp'', ''.cpp'', ''.cc'', ''.cxx''}"
  by (simp add: DEFAULT_SOURCE_EXTENSIONS_def lower_def lower_char_def upper_letters_def
      lower_letters_def)

lemma default_extension_canonical:
  "e \<in> set DEFAULT_SOURCE_EXTENSIONS \<Longrightarrow> lower e = e \<and> startswith e ''.''"
  by (auto simp: DEFAULT_SOURCE_EXTENSIONS_def lower_def lower_char_def upper_letters_def
      lower_letters_def startswith_def)

lemma normalize_extensions_cases:
  "normalize_extensions extensions =
     (if given extensions = [] then set DEFAULT_SOURCE_EXTENSIONS
      else normalize_extension ` set (given extensions))"
  using default_extensions_lower
  by (simp add: normalize_extensions_def given_def DEFAULT_SOURCE_EXTENSIONS_def
       split: option.split list.split)

subsection \<open>Lexical normalisation\<close>











subsection \<open>Paths and their strings\<close>

lemma anchor_Path_isabs: "anchor (Path f) \<noteq> [] \<longleftrightarrow> isabs f"
  by (auto simp: Path_def path_anchor_def isabs_def startswith_def take_Suc_conv_app_nth
      dest: arg_cong [where f = "take 1"] split: if_splits)

lemma pth_join_relative:
  "\<not> isabs f \<Longrightarrow> pth_join p f = Pth (anchor p) (comps p @ comps (Path f))"
  using anchor_Path_isabs [of f] by (simp add: pth_join_def Let_def)


















subsection \<open>Names in a proper tree\<close>




subsection \<open>The walk of one directory tree\<close>

lemma excluded_part_extend:
  "path_has_excluded_part (Pth a cs) exclude_dirs \<Longrightarrow>
   path_has_excluded_part (Pth a (cs @ ds)) exclude_dirs"
  by (auto simp: path_has_excluded_part_def parts_def split: if_splits)


lemma walk_dir_excluded:
  "path_has_excluded_part root exclude_dirs \<Longrightarrow>
   walk_dir h file_extensions exclude_dirs cep root n = []"
  by (cases n) simp_all

lemma walk_start_excluded:
  "path_has_excluded_part start exclude_dirs \<Longrightarrow>
   walk_start h file_extensions exclude_dirs cep start = []"
  by (simp add: walk_start_def walk_dir_excluded split: option.split)


subsection \<open>The roots that are walked\<close>

lemma roots_to_walk_subset:
  "set (roots_to_walk h root include_folders)
     \<subseteq> insert root
         ((\<lambda>folder. if \<not> isabs folder then pth_join root folder else Path folder)
            ` set (given include_folders))"
proof -
  have "roots_to_walk h root include_folders = [root]
      \<or> roots_to_walk h root include_folders = include_subs h root include_folders"
    unfolding roots_to_walk_def Let_def by presburger
  moreover have "set (include_subs h root include_folders) \<subseteq>
      (\<lambda>folder. if \<not> isabs folder then pth_join root folder else Path folder)
            ` set (given include_folders)"
    unfolding include_subs_def by (metis filter_is_subset list.set_map)
  ultimately show ?thesis
    by auto
qed

lemma roots_to_walk_cases:
  assumes "start \<in> set (roots_to_walk h root include_folders)"
  shows "start = root
     \<or> (\<exists>f\<in>set (given include_folders). \<not> isabs f \<and> start = pth_join root f)
     \<or> (\<exists>f\<in>set (given include_folders). isabs f \<and> start = Path f)"
proof -
  from assms roots_to_walk_subset consider "start = root"
    | f where "f \<in> set (given include_folders)"
        "start = (if \<not> isabs f then pth_join root f else Path f)"
    by blast
  then show ?thesis
  proof cases
    case 1
    then show ?thesis by simp
  next
    case 2
    then show ?thesis by (cases "isabs f") auto
  qed
qed



lemma roots_to_walk_excluded:
  assumes "path_has_excluded_part root exclude_dirs"
    and "start \<in> set (roots_to_walk h root include_folders)"
  shows "path_has_excluded_part start exclude_dirs
     \<or> (\<exists>f\<in>set (given include_folders). isabs f \<and> start = Path f)"
proof -
  from roots_to_walk_cases [OF assms(2)] consider "start = root"
    | f where "\<not> isabs f" "start = pth_join root f"
    | "\<exists>f\<in>set (given include_folders). isabs f \<and> start = Path f"
    by blast
  then show ?thesis
  proof cases
    case 1
    with assms(1) show ?thesis by simp
  next
    case 2
    from assms(1) have "path_has_excluded_part (Pth (anchor root) (comps root)) exclude_dirs"
      by simp
    then have "path_has_excluded_part (Pth (anchor root) (comps root @ comps (Path f)))
        exclude_dirs"
      by (rule excluded_part_extend)
    with 2 show ?thesis
      by (simp add: pth_join_relative)
  next
    case 3
    then show ?thesis by simp
  qed
qed


subsection \<open>The strings returned by a walk\<close>

lemma walk_for_files_set:
  "set (walk_for_files h root_path file_extensions include_folders exclude_dirs exclude_paths)
     \<subseteq> (\<Union>start\<in>set (roots_to_walk h (resolve h root_path) include_folders).
          set (walk_start h file_extensions exclude_dirs
                 (case exclude_paths of None \<Rightarrow> {} | Some ps \<Rightarrow> resolve h ` ps) start))"
  by (auto simp: walk_for_files_def Let_def)





subsection \<open>The discovered library roots\<close>








subsection \<open>The result of the two top-level functions\<close>







text \<open>When no name of \<^verbatim>\<open>exclude_dirs\<close> starts with a dot, the names are added as they
  are given.\<close>

lemma exclude_dir_set_plain_names:
  assumes "\<forall>d\<in>set (given exclude_dirs). \<not> startswith d ''.''"
  shows "exclude_dir_set exclude_dirs exclude_folders
       = DEFAULT_EXCLUDE_DIRS \<union> set (given exclude_dirs)
           \<union> exclude_folder_part ` set (given exclude_folders)"
proof -
  from assms have "map exclude_dir_name (given exclude_dirs) = given exclude_dirs"
    by (simp add: exclude_dir_name_def map_idI)
  then show ?thesis
    by (simp add: exclude_dir_set_def)
qed




subsection \<open>The dispatcher\<close>

lemma getcwd_not_empty: "getcwd h \<noteq> []"
  by (simp add: getcwd_def pth_str_def)

lemma std_project_dir_not_empty: "std_project_dir h project_dir \<noteq> []"
  by (simp add: std_project_dir_def Let_def getcwd_not_empty)

subsection \<open>Runs on the concrete hosts\<close>









section \<open>The claims\<close>




text \<open>
  Claim C2 fails on the code. The project has
  \<^verbatim>\<open>build/_deps/zlib-src/include/zlib.h\<close>, no environment variable is set, and the
  library root \<^verbatim>\<open>/proj/build/_deps/zlib-src\<close> is discovered. Its walk returns nothing,
  because the part \<^verbatim>\<open>build\<close> of the root's own path is a default excluded name (with
  no excluded name the same walk returns the header), and the header is not in the
  result of \<^verbatim>\<open>get_all_files_desktop\<close> with default arguments.
\<close>

theorem desktop_misses_library_header:
  "pth_exists project_host (Path ''/proj/build/_deps/zlib-src/include/zlib.h'')
   \<and> environ project_host ''CMAKE_PROJECT_DIR'' = None
   \<and> environ project_host ''PROJECT_DIR'' = None
   \<and> discover_libraries_desktop project_host ''/proj''
       = [Pth ''/'' [''proj'', ''build'', ''_deps'', ''zlib-src'']]
   \<and> walk_for_files project_host (Pth ''/'' [''proj'', ''build'', ''_deps'', ''zlib-src''])
        (normalize_extensions None) None (exclude_dir_set None None) None = []
   \<and> walk_for_files project_host (Pth ''/'' [''proj'', ''build'', ''_deps'', ''zlib-src''])
        (normalize_extensions None) None {} None
       = [''/proj/build/_deps/zlib-src/include/zlib.h'']
   \<and> get_all_files_desktop project_host ''/proj'' None None None None True
       = [''/proj/.cache/tmp.h'', ''/proj/include/Bar.HPP'', ''/proj/include/foo.h'',
          ''/proj/src/main.cpp'', ''/proj/src/sub/keep.h'']
   \<and> ''/proj/build/_deps/zlib-src/include/zlib.h''
       \<notin> set (get_all_files_desktop project_host ''/proj'' None None None None True)"
proof -
  have out: "get_all_files_desktop project_host ''/proj'' None None None None True
       = [''/proj/.cache/tmp.h'', ''/proj/include/Bar.HPP'', ''/proj/include/foo.h'',
          ''/proj/src/main.cpp'', ''/proj/src/sub/keep.h'']"
    by code_simp
  moreover have "pth_exists project_host (Path ''/proj/build/_deps/zlib-src/include/zlib.h'')"
    by code_simp
  moreover have "environ project_host ''CMAKE_PROJECT_DIR'' = None"
    and "environ project_host ''PROJECT_DIR'' = None"
    by (simp_all add: project_host_def)
  moreover have "discover_libraries_desktop project_host ''/proj''
       = [Pth ''/'' [''proj'', ''build'', ''_deps'', ''zlib-src'']]"
    by code_simp
  moreover have "walk_for_files project_host
        (Pth ''/'' [''proj'', ''build'', ''_deps'', ''zlib-src''])
        (normalize_extensions None) None (exclude_dir_set None None) None = []"
    by code_simp
  moreover have "walk_for_files project_host
        (Pth ''/'' [''proj'', ''build'', ''_deps'', ''zlib-src''])
        (normalize_extensions None) None {} None
       = [''/proj/build/_deps/zlib-src/include/zlib.h'']"
    by code_simp
  moreover have "''/proj/build/_deps/zlib-src/include/zlib.h''
       \<notin> set (get_all_files_desktop project_host ''/proj'' None None None None True)"
    by (simp add: out)
  ultimately show ?thesis
    by blast
qed

theorem desktop_misses_library_header_witness:
  "''/proj/build/_deps/zlib-src/include/zlib.h''
     \<notin> set (get_all_files_desktop project_host ''/proj'' None None None None True)"
  using desktop_misses_library_header by blast

text \<open>
  Claim C3 fails on the code in its first half. The project has
  \<^verbatim>\<open>.pio/libdeps/uno/Wire/src/Wire.h\<close> and the library root
  \<^verbatim>\<open>/proj/.pio/libdeps/uno/Wire\<close> is discovered, but its walk returns nothing, because
  the part \<^verbatim>\<open>.pio\<close> of the root's own path is a default excluded name: the header is
  not in the result of \<^verbatim>\<open>get_all_files_arduino\<close> with default arguments. It is not in
  the result of \<^verbatim>\<open>get_all_files_desktop\<close> either, as the claim says.
\<close>

theorem embedded_misses_library_header:
  "pth_exists pio_host (Path ''/proj/.pio/libdeps/uno/Wire/src/Wire.h'')
   \<and> discover_libraries_arduino pio_host ''/proj''
       = [Pth ''/'' [''proj'', ''.pio'', ''libdeps'', ''uno'', ''Wire'']]
   \<and> walk_for_files pio_host (Pth ''/'' [''proj'', ''.pio'', ''libdeps'', ''uno'', ''Wire''])
        (normalize_extensions None) None (exclude_dir_set None None) None = []
   \<and> get_all_files_arduino pio_host ''/proj'' None None None None True
       = [''/proj/src/main.cpp'']
   \<and> ''/proj/.pio/libdeps/uno/Wire/src/Wire.h''
       \<notin> set (get_all_files_arduino pio_host ''/proj'' None None None None True)
   \<and> ''/proj/.pio/libdeps/uno/Wire/src/Wire.h''
       \<notin> set (get_all_files_desktop pio_host ''/proj'' None None None None True)"
proof -
  have out: "get_all_files_arduino pio_host ''/proj'' None None None None True
       = [''/proj/src/main.cpp'']"
    by code_simp
  have desk: "get_all_files_desktop pio_host ''/proj'' None None None None True
       = [''/proj/src/main.cpp'']"
    by code_simp
  have "pth_exists pio_host (Path ''/proj/.pio/libdeps/uno/Wire/src/Wire.h'')"
    by code_simp
  moreover have "discover_libraries_arduino pio_host ''/proj''
       = [Pth ''/'' [''proj'', ''.pio'', ''libdeps'', ''uno'', ''Wire'']]"
    by code_simp
  moreover have "walk_for_files pio_host
        (Pth ''/'' [''proj'', ''.pio'', ''libdeps'', ''uno'', ''Wire''])
        (normalize_extensions None) None (exclude_dir_set None None) None = []"
    by code_simp
  moreover have "''/proj/.pio/libdeps/uno/Wire/src/Wire.h''
       \<notin> set (get_all_files_arduino pio_host ''/proj'' None None None None True)"
    by (simp add: out)
  moreover have "''/proj/.pio/libdeps/uno/Wire/src/Wire.h''
       \<notin> set (get_all_files_desktop pio_host ''/proj'' None None None None True)"
    by (simp add: desk)
  ultimately show ?thesis
    using out by blast
qed

theorem embedded_misses_library_header_witness:
  "''/proj/.pio/libdeps/uno/Wire/src/Wire.h''
     \<notin> set (get_all_files_arduino pio_host ''/proj'' None None None None True)"
  using embedded_misses_library_header by blast

text \<open>
  Claim C4, amended. When a part of the resolved root is an excluded name, the walk
  collects nothing from the root and nothing from an include folder that is relative to
  it: whatever it returns was collected from an include folder given as an absolute
  path, which is walked in place of the root. With no absolute include folder the
  result is empty.
\<close>

theorem excluded_root_collects_nothing:
  assumes "path_has_excluded_part (resolve h root_path) exclude_dirs"
  shows "set (walk_for_files h root_path file_extensions include_folders exclude_dirs
                exclude_paths)
       \<subseteq> (\<Union>f\<in>{f \<in> set (given include_folders). isabs f}.
            set (walk_start h file_extensions exclude_dirs
                   (case exclude_paths of None \<Rightarrow> {} | Some ps \<Rightarrow> resolve h ` ps) (Path f)))
     \<and> ((\<forall>f\<in>set (given include_folders). \<not> isabs f) \<longrightarrow>
          walk_for_files h root_path file_extensions include_folders exclude_dirs
            exclude_paths = [])"
proof -
  let ?cep = "case exclude_paths of None \<Rightarrow> {} | Some ps \<Rightarrow> resolve h ` ps"
  let ?w = "walk_for_files h root_path file_extensions include_folders exclude_dirs
              exclude_paths"
  have sub: "set ?w \<subseteq> (\<Union>f\<in>{f \<in> set (given include_folders). isabs f}.
            set (walk_start h file_extensions exclude_dirs ?cep (Path f)))"
  proof
    fix s assume "s \<in> set ?w"
    with walk_for_files_set obtain start where
      start: "start \<in> set (roots_to_walk h (resolve h root_path) include_folders)"
      and s: "s \<in> set (walk_start h file_extensions exclude_dirs ?cep start)"
      by blast
    from s have "\<not> path_has_excluded_part start exclude_dirs"
      using walk_start_excluded by fastforce
    with roots_to_walk_excluded [OF assms start]
    obtain f where "f \<in> set (given include_folders)" "isabs f" "start = Path f"
      by blast
    with s show "s \<in> (\<Union>f\<in>{f \<in> set (given include_folders). isabs f}.
            set (walk_start h file_extensions exclude_dirs ?cep (Path f)))"
      by blast
  qed
  moreover have "?w = []" if "\<forall>f\<in>set (given include_folders). \<not> isabs f"
  proof -
    from that sub have "set ?w \<subseteq> {}"
      by blast
    then show ?thesis by simp
  qed
  ultimately show ?thesis by blast
qed

theorem excluded_root_collects_nothing_witness:
  "path_has_excluded_part (resolve project_host (Path ''/proj/build/_deps/zlib-src''))
     DEFAULT_EXCLUDE_DIRS
   \<and> \<not> isabs ''include''
   \<and> pth_is_dir project_host (Path ''/proj/build/_deps/zlib-src/include'')
   \<and> walk_for_files project_host (Path ''/proj/build/_deps/zlib-src'')
        (normalize_extensions None) (Some [''include'']) DEFAULT_EXCLUDE_DIRS None = []"
proof -
  have a: "path_has_excluded_part (resolve project_host (Path ''/proj/build/_deps/zlib-src''))
     DEFAULT_EXCLUDE_DIRS"
    by code_simp
  have b: "\<not> isabs ''include''"
    by code_simp
  have c: "pth_is_dir project_host (Path ''/proj/build/_deps/zlib-src/include'')"
    by code_simp
  have d: "\<forall>f\<in>set (given (Some [''include''])). \<not> isabs f"
    using b by (simp add: given_def)
  from excluded_root_collects_nothing [OF a, of "normalize_extensions None"
      "Some [''include'']" None] d
  have "walk_for_files project_host (Path ''/proj/build/_deps/zlib-src'')
        (normalize_extensions None) (Some [''include'']) DEFAULT_EXCLUDE_DIRS None = []"
    by blast
  with a b c show ?thesis by blast
qed

text \<open>
  The claim as it is stated fails: the root \<^verbatim>\<open>/proj/build/_deps/zlib-src\<close> has the
  excluded part \<^verbatim>\<open>build\<close>, and with the absolute include folder \<^verbatim>\<open>/opt/inc\<close> its
  walk returns a file.
\<close>

theorem excluded_root_absolute_include_counterexample:
  "path_has_excluded_part (resolve project_host (Path ''/proj/build/_deps/zlib-src''))
     DEFAULT_EXCLUDE_DIRS
   \<and> walk_for_files project_host (Path ''/proj/build/_deps/zlib-src'')
        (normalize_extensions None) (Some [''/opt/inc'']) DEFAULT_EXCLUDE_DIRS None
       = [''/opt/inc/a.h'']"
proof
  show "path_has_excluded_part (resolve project_host (Path ''/proj/build/_deps/zlib-src''))
     DEFAULT_EXCLUDE_DIRS"
    by code_simp
  show "walk_for_files project_host (Path ''/proj/build/_deps/zlib-src'')
        (normalize_extensions None) (Some [''/opt/inc'']) DEFAULT_EXCLUDE_DIRS None
       = [''/opt/inc/a.h'']"
    by code_simp
qed







text \<open>
  Claim C8. Whatever list is given, every extension of the normalised set starts with a
  dot and is lower case (lowering it changes nothing, and it has no capital letter), and
  the set is not empty; for an absent or an empty list the set is the default set
  \<open>DEFAULT_SOURCE_EXTENSIONS\<close>.
\<close>

theorem normalize_extensions_canonical:
  "(\<forall>e\<in>normalize_extensions extensions.
      startswith e ''.'' \<and> lower e = e \<and> (\<forall>c\<in>set e. \<not> is_upper c))
   \<and> normalize_extensions extensions \<noteq> {}
   \<and> normalize_extensions None = set DEFAULT_SOURCE_EXTENSIONS
   \<and> normalize_extensions (Some []) = set DEFAULT_SOURCE_EXTENSIONS"
proof (intro conjI ballI)
  fix e assume e: "e \<in> normalize_extensions extensions"
  show "startswith e ''.''"
  proof (cases "given extensions = []")
    case True
    with e show ?thesis
      by (simp add: normalize_extensions_cases default_extension_canonical)
  next
    case False
    with e show ?thesis
      by (auto simp: normalize_extensions_cases normalize_extension_dot)
  qed
  show "lower e = e"
  proof (cases "given extensions = []")
    case True
    with e show ?thesis
      by (simp add: normalize_extensions_cases default_extension_canonical)
  next
    case False
    with e show ?thesis
      by (auto simp: normalize_extensions_cases normalize_extension_fix)
  qed
  then have "set e = set (lower e)"
    by simp
  then show "\<And>c. c \<in> set e \<Longrightarrow> \<not> is_upper c"
    using lower_no_upper by blast
next
  show "normalize_extensions extensions \<noteq> {}"
    by (simp add: normalize_extensions_cases DEFAULT_SOURCE_EXTENSIONS_def)
  show "normalize_extensions None = set DEFAULT_SOURCE_EXTENSIONS"
    by (simp add: normalize_extensions_cases given_def)
  show "normalize_extensions (Some []) = set DEFAULT_SOURCE_EXTENSIONS"
    by (simp add: normalize_extensions_cases given_def)
qed

theorem normalize_extensions_canonical_witness:
  "''.h'' \<in> normalize_extensions (Some [''H'', ''.Cpp''])
   \<and> ''.cpp'' \<in> normalize_extensions (Some [''H'', ''.Cpp''])
   \<and> startswith ''.cpp'' ''.'' \<and> lower ''.cpp'' = ''.cpp''"
proof -
  have m: "normalize_extensions (Some [''H'', ''.Cpp'']) = {''.h'', ''.cpp''}"
    by (simp add: normalize_extensions_def normalize_extension_def lower_def lower_char_def
        upper_letters_def lower_letters_def startswith_def Let_def)
  with normalize_extensions_canonical [of "Some [''H'', ''.Cpp'']"] show ?thesis
    by (simp add: startswith_def)
qed

text \<open>
  Claim C9 fails on the code. A name of \<^verbatim>\<open>exclude_dirs\<close> that starts with a dot is not
  merged as it is given: its leading dots are removed first. For the name
  \<^verbatim>\<open>.cache\<close> the set gains \<^verbatim>\<open>cache\<close> and not \<^verbatim>\<open>.cache\<close>, and the file under the
  directory \<^verbatim>\<open>.cache\<close> of the project is still returned.
\<close>

theorem exclude_name_dots_stripped:
  "exclude_dir_set (Some [''.cache'']) None = insert ''cache'' DEFAULT_EXCLUDE_DIRS
   \<and> ''.cache'' \<notin> exclude_dir_set (Some [''.cache'']) None
   \<and> ''/proj/.cache/tmp.h''
       \<in> set (get_all_files_desktop project_host ''/proj'' None None None (Some [''.cache''])
               True)
   \<and> ''/proj/.cache/tmp.h''
       \<in> set (get_all_files_arduino project_host ''/proj'' None None None (Some [''.cache''])
               True)"
proof -
  have "exclude_dir_name ''.cache'' = ''cache''"
    by (simp add: exclude_dir_name_def startswith_def lstrip_dots_def)
  then have e: "exclude_dir_set (Some [''.cache'']) None = insert ''cache'' DEFAULT_EXCLUDE_DIRS"
    by (simp add: exclude_dir_set_def given_def)
  then have "''.cache'' \<notin> exclude_dir_set (Some [''.cache'']) None"
    by (simp add: DEFAULT_EXCLUDE_DIRS_def)
  moreover have "get_all_files_desktop project_host ''/proj'' None None None (Some [''.cache''])
      True = [''/proj/.cache/tmp.h'', ''/proj/include/Bar.HPP'', ''/proj/include/foo.h'',
          ''/proj/src/main.cpp'', ''/proj/src/sub/keep.h'']"
    by code_simp
  moreover have "get_all_files_arduino project_host ''/proj'' None None None (Some [''.cache''])
      True = [''/proj/.cache/tmp.h'', ''/proj/include/Bar.HPP'', ''/proj/include/foo.h'',
          ''/proj/src/main.cpp'', ''/proj/src/sub/keep.h'']"
    by code_simp
  ultimately show ?thesis
    using e by simp
qed

theorem exclude_name_dots_stripped_witness:
  "''.cache'' \<notin> exclude_dir_set (Some [''.cache'']) None"
  using exclude_name_dots_stripped by blast

text \<open>
  Claim C10. An environment signal is present when the variable is set to a string that
  is not empty, which is what the tests of \<^verbatim>\<open>os.environ.get\<close> accept. With the desktop
  signal the build is a CMake build, whatever else holds; with the embedded signal
  alone it is not; with neither signal and a project directory, it is a CMake build
  when \<^verbatim>\<open>build/_deps\<close> exists, it is not when \<^verbatim>\<open>build/_deps\<close> does not exist and
  \<^verbatim>\<open>.pio/libdeps\<close> does, and it is when neither exists. The wrapper
  \<^verbatim>\<open>get_all_files_std\<close> asks this of a project directory that is never empty and
  calls the desktop function when the answer is yes, the Arduino function otherwise.
\<close>

theorem dispatcher_policy:
  "(env_truthy h ''CMAKE_PROJECT_DIR'' \<longrightarrow> is_cmake_build h project_dir)
   \<and> (\<not> env_truthy h ''CMAKE_PROJECT_DIR'' \<and> env_truthy h ''PROJECT_DIR'' \<longrightarrow>
        \<not> is_cmake_build h project_dir)
   \<and> (\<not> env_truthy h ''CMAKE_PROJECT_DIR'' \<and> \<not> env_truthy h ''PROJECT_DIR'' \<and> d \<noteq> [] \<longrightarrow>
        (pth_exists h (pth_join (pth_join (resolve h (Path d)) ''build'') ''_deps'') \<longrightarrow>
           is_cmake_build h (Some d))
        \<and> (\<not> pth_exists h (pth_join (pth_join (resolve h (Path d)) ''build'') ''_deps'')
            \<and> pth_exists h (pth_join (pth_join (resolve h (Path d)) ''.pio'') ''libdeps'') \<longrightarrow>
           \<not> is_cmake_build h (Some d))
        \<and> (\<not> pth_exists h (pth_join (pth_join (resolve h (Path d)) ''build'') ''_deps'')
            \<and> \<not> pth_exists h (pth_join (pth_join (resolve h (Path d)) ''.pio'') ''libdeps'') \<longrightarrow>
           is_cmake_build h (Some d)))
   \<and> std_project_dir h project_dir \<noteq> []
   \<and> get_all_files_std h project_dir file_extensions include_folders exclude_folders
         exclude_dirs include_libraries
       = (if is_cmake_build h (Some (std_project_dir h project_dir))
          then get_all_files_desktop h (std_project_dir h project_dir) file_extensions
                 include_folders exclude_folders exclude_dirs include_libraries
          else get_all_files_arduino h (std_project_dir h project_dir) file_extensions
                 include_folders exclude_folders exclude_dirs include_libraries)"
proof (intro conjI impI)
  show "std_project_dir h project_dir \<noteq> []"
    by (rule std_project_dir_not_empty)
  show "get_all_files_std h project_dir file_extensions include_folders exclude_folders
         exclude_dirs include_libraries
       = (if is_cmake_build h (Some (std_project_dir h project_dir))
          then get_all_files_desktop h (std_project_dir h project_dir) file_extensions
                 include_folders exclude_folders exclude_dirs include_libraries
          else get_all_files_arduino h (std_project_dir h project_dir) file_extensions
                 include_folders exclude_folders exclude_dirs include_libraries)"
    by (simp add: get_all_files_std_def Let_def)
qed (simp_all add: is_cmake_build_def Let_def)

theorem dispatcher_policy_witness:
  "env_truthy both_signals_host ''CMAKE_PROJECT_DIR''
   \<and> env_truthy both_signals_host ''PROJECT_DIR''
   \<and> is_cmake_build both_signals_host (Some ''/proj'')
   \<and> \<not> env_truthy embedded_signal_host ''CMAKE_PROJECT_DIR''
   \<and> env_truthy embedded_signal_host ''PROJECT_DIR''
   \<and> \<not> is_cmake_build embedded_signal_host (Some ''/proj'')
   \<and> pth_exists project_host (pth_join (pth_join (resolve project_host (Path ''/proj'')) ''build'') ''_deps'')
   \<and> pth_exists project_host (pth_join (pth_join (resolve project_host (Path ''/proj'')) ''.pio'') ''libdeps'')
   \<and> is_cmake_build project_host (Some ''/proj'')
   \<and> \<not> is_cmake_build pio_host (Some ''/proj'')
   \<and> is_cmake_build bare_host (Some ''/proj'')"
proof -
  have e: "env_truthy both_signals_host ''CMAKE_PROJECT_DIR''"
    "env_truthy both_signals_host ''PROJECT_DIR''"
    "\<not> env_truthy embedded_signal_host ''CMAKE_PROJECT_DIR''"
    "env_truthy embedded_signal_host ''PROJECT_DIR''"
    "\<not> env_truthy project_host ''CMAKE_PROJECT_DIR''" "\<not> env_truthy project_host ''PROJECT_DIR''"
    "\<not> env_truthy pio_host ''CMAKE_PROJECT_DIR''" "\<not> env_truthy pio_host ''PROJECT_DIR''"
    "\<not> env_truthy bare_host ''CMAKE_PROJECT_DIR''" "\<not> env_truthy bare_host ''PROJECT_DIR''"
    by (simp_all add: env_truthy_def both_signals_host_def embedded_signal_host_def
        project_host_def pio_host_def bare_host_def)
  have p: "pth_exists project_host
             (pth_join (pth_join (resolve project_host (Path ''/proj'')) ''build'') ''_deps'')"
    "pth_exists project_host
             (pth_join (pth_join (resolve project_host (Path ''/proj'')) ''.pio'') ''libdeps'')"
    "\<not> pth_exists pio_host
             (pth_join (pth_join (resolve pio_host (Path ''/proj'')) ''build'') ''_deps'')"
    "pth_exists pio_host
             (pth_join (pth_join (resolve pio_host (Path ''/proj'')) ''.pio'') ''libdeps'')"
    "\<not> pth_exists bare_host
             (pth_join (pth_join (resolve bare_host (Path ''/proj'')) ''build'') ''_deps'')"
    "\<not> pth_exists bare_host
             (pth_join (pth_join (resolve bare_host (Path ''/proj'')) ''.pio'') ''libdeps'')"
    by code_simp+
  have n: "''/proj'' \<noteq> []"
    by simp
  from e p n
    dispatcher_policy [of both_signals_host "Some ''/proj''" "''/proj''" None None None None True]
    dispatcher_policy [of embedded_signal_host "Some ''/proj''" "''/proj''" None None None None True]
    dispatcher_policy [of project_host "Some ''/proj''" "''/proj''" None None None None True]
    dispatcher_policy [of pio_host "Some ''/proj''" "''/proj''" None None None None True]
    dispatcher_policy [of bare_host "Some ''/proj''" "''/proj''" None None None None True]
  show ?thesis
    by blast
qed

end
